theory Spec2Isabelle
  imports Main "HOL-Library.Sublist"
begin

section \<open>Errors and path strings\<close>

text \<open>
  The exceptions that \<^verbatim>\<open>fmgr.py\<close> raises itself are \<^verbatim>\<open>ValueError\<close> (an index out of
  range), \<^verbatim>\<open>NotADirectoryError\<close> and \<^verbatim>\<open>FileNotFoundError\<close>, each with its message.  The
  remaining constructors are exceptions that the calls into \<^verbatim>\<open>os\<close> and \<^verbatim>\<open>shutil\<close> may
  raise.  A method call is modelled as a function returning a result of type
  \<open>py_error + 'a\<close> (\<open>Inl\<close> is a raised exception) paired with the state it leaves.
\<close>

datatype py_error =
    ValueError string
  | NotADirectoryError string
  | FileNotFoundError string
  | IsADirectoryError string
  | PermissionError string
  | ShutilError string
  | OSError string

text \<open>
  \<^verbatim>\<open>os.path.join\<close>, \<^verbatim>\<open>os.path.dirname\<close> and \<^verbatim>\<open>os.path.basename\<close> are pure string
  functions; they are modelled as \<^verbatim>\<open>posixpath\<close> defines them, for two arguments of
  \<^verbatim>\<open>join\<close> (the only use in the source):
  \<^verbatim>\<open>
  def join(a, b):
      path = a
      if b.startswith('/'): path = b
      elif not path or path.endswith('/'): path += b
      else: path += '/' + b
      return path

  def dirname(p):
      i = p.rfind('/') + 1
      head = p[:i]
      if head and head != '/' * len(head):
          head = head.rstrip('/')
      return head

  def basename(p):
      i = p.rfind('/') + 1
      return p[i:]
  \<close>
\<close>

definition sep :: char where
  "sep = CHR ''/''"

definition os_path_join :: "string \<Rightarrow> string \<Rightarrow> string" where
  "os_path_join a b =
     (if b \<noteq> [] \<and> hd b = sep then b
      else if a = [] \<or> last a = sep then a @ b
      else a @ [sep] @ b)"

definition rstrip_sep :: "string \<Rightarrow> string" where
  "rstrip_sep s = rev (dropWhile (\<lambda>c. c = sep) (rev s))"

definition os_path_dirname :: "string \<Rightarrow> string" where
  "os_path_dirname p =
     (let head = rev (dropWhile (\<lambda>c. c \<noteq> sep) (rev p))
      in if head \<noteq> [] \<and> head \<noteq> replicate (length head) sep then rstrip_sep head
         else head)"

definition os_path_basename :: "string \<Rightarrow> string" where
  "os_path_basename p = rev (takeWhile (\<lambda>c. c \<noteq> sep) (rev p))"

section \<open>The filesystem primitives\<close>

text \<open>
  The calls into the operating system are the boundary of the program.  They are taken
  as a record of functions over an arbitrary type \<open>'fs\<close> of filesystem states, so that
  the theorems about the three classes hold whatever these calls do.  A query reads the
  filesystem; \<^verbatim>\<open>os.listdir\<close> may raise.  A mutating call returns its result and the
  filesystem it leaves, also when it raises.
\<close>

record 'fs os_prims =
  os_listdir :: "'fs \<Rightarrow> string \<Rightarrow> py_error + string list"
  os_path_isdir :: "'fs \<Rightarrow> string \<Rightarrow> bool"
  os_path_isfile :: "'fs \<Rightarrow> string \<Rightarrow> bool"
  os_path_exists :: "'fs \<Rightarrow> string \<Rightarrow> bool"
  os_remove :: "'fs \<Rightarrow> string \<Rightarrow> (py_error + unit) \<times> 'fs"
  shutil_rmtree :: "'fs \<Rightarrow> string \<Rightarrow> (py_error + unit) \<times> 'fs"
  shutil_copy2 :: "'fs \<Rightarrow> string \<Rightarrow> string \<Rightarrow> (py_error + unit) \<times> 'fs"
  shutil_move :: "'fs \<Rightarrow> string \<Rightarrow> string \<Rightarrow> (py_error + unit) \<times> 'fs"

section \<open>FileExplorer\<close>

record explorer =
  current_path :: string

definition get_current_directory :: "explorer \<Rightarrow> string" where
  "get_current_directory e = current_path e"

definition set_current_directory :: "explorer \<Rightarrow> string \<Rightarrow> (py_error + unit) \<times> explorer" where
  "set_current_directory e path = (Inr (), e\<lparr>current_path := path\<rparr>)"

definition list_directory_contents ::
  "'fs os_prims \<Rightarrow> 'fs \<Rightarrow> explorer \<Rightarrow> py_error + string list" where
  "list_directory_contents os fs e = os_listdir os fs (current_path e)"

text \<open>
  \<^verbatim>\<open>navigate_to_index\<close>: the index is a Python \<^verbatim>\<open>int\<close>; past the range check it is
  non-negative and below the length, so \<^verbatim>\<open>contents[index]\<close> is the element at \<open>nat index\<close>.
\<close>

definition navigate_to_index ::
  "'fs os_prims \<Rightarrow> 'fs \<Rightarrow> explorer \<Rightarrow> int \<Rightarrow> (py_error + unit) \<times> explorer" where
  "navigate_to_index os fs e index =
     (case list_directory_contents os fs e of
        Inl err \<Rightarrow> (Inl err, e)
      | Inr contents \<Rightarrow>
          if index < 0 \<or> index \<ge> int (length contents)
          then (Inl (ValueError ''Invalid index.''), e)
          else
            let selected = contents ! nat index;
                full_path = os_path_join (current_path e) selected
            in if os_path_isdir os fs full_path
               then (Inr (), e\<lparr>current_path := full_path\<rparr>)
               else (Inl (NotADirectoryError (selected @ '' is not a directory.'')), e))"

definition go_to_parent_directory :: "explorer \<Rightarrow> (py_error + unit) \<times> explorer" where
  "go_to_parent_directory e =
     (let parent = os_path_dirname (current_path e)
      in (Inr (), e\<lparr>current_path := parent\<rparr>))"

section \<open>FileSelector\<close>

text \<open>
  The selector keeps a reference to the explorer and only reads it; the model passes the
  explorer's state as an argument.
\<close>

record selector =
  selected_files :: "string list"
  current_directory_contents :: "string list"

definition load_directory_contents ::
  "'fs os_prims \<Rightarrow> 'fs \<Rightarrow> explorer \<Rightarrow> selector \<Rightarrow> (py_error + string list) \<times> selector" where
  "load_directory_contents os fs e s =
     (case list_directory_contents os fs e of
        Inl err \<Rightarrow> (Inl err, s)
      | Inr contents \<Rightarrow> (Inr contents, s\<lparr>current_directory_contents := contents\<rparr>))"

text \<open>The \<^verbatim>\<open>for i in indices\<close> loop of \<^verbatim>\<open>select_files_by_indices\<close>; a raise leaves the
  selector as the earlier iterations made it.\<close>

fun select_loop :: "string \<Rightarrow> int list \<Rightarrow> selector \<Rightarrow> (py_error + unit) \<times> selector" where
  "select_loop current_dir [] s = (Inr (), s)"
| "select_loop current_dir (i # indices) s =
     (if 0 \<le> i \<and> i < int (length (current_directory_contents s))
      then
        let full_path = os_path_join current_dir (current_directory_contents s ! nat i)
        in select_loop current_dir indices (s\<lparr>selected_files := selected_files s @ [full_path]\<rparr>)
      else (Inl (ValueError ''File index out of range.''), s))"

definition select_files_by_indices ::
  "'fs os_prims \<Rightarrow> 'fs \<Rightarrow> explorer \<Rightarrow> selector \<Rightarrow> int list
     \<Rightarrow> (py_error + string list) \<times> selector" where
  "select_files_by_indices os fs e s indices =
     (case load_directory_contents os fs e s of
        (Inl err, s1) \<Rightarrow> (Inl err, s1)
      | (Inr _, s1) \<Rightarrow>
          let current_dir = get_current_directory e;
              s2 = s1\<lparr>selected_files := []\<rparr>
          in (case select_loop current_dir indices s2 of
                (Inl err, s3) \<Rightarrow> (Inl err, s3)
              | (Inr _, s3) \<Rightarrow> (Inr (selected_files s3), s3)))"

definition get_selected_files :: "selector \<Rightarrow> string list" where
  "get_selected_files s = selected_files s"

definition clear_selection :: "selector \<Rightarrow> (py_error + unit) \<times> selector" where
  "clear_selection s = (Inr (), s\<lparr>selected_files := []\<rparr>)"

section \<open>FileManager\<close>

text \<open>
  The three operations read the selection, loop over it and clear it after the loop.
  The clearing statement follows the loop with no \<^verbatim>\<open>try\<close>/\<^verbatim>\<open>finally\<close> around it, so an
  exception raised in the loop leaves the method before the selection is cleared.
\<close>

fun copy_loop :: "'fs os_prims \<Rightarrow> string \<Rightarrow> string list \<Rightarrow> 'fs \<Rightarrow> (py_error + unit) \<times> 'fs" where
  "copy_loop os destination [] fs = (Inr (), fs)"
| "copy_loop os destination (f # files) fs =
     (if os_path_exists os fs f
      then (case shutil_copy2 os fs f destination of
              (Inl err, fs') \<Rightarrow> (Inl err, fs')
            | (Inr _, fs') \<Rightarrow> copy_loop os destination files fs')
      else (Inl (FileNotFoundError (f @ '' does not exist.'')), fs))"

definition copy_files ::
  "'fs os_prims \<Rightarrow> string \<Rightarrow> 'fs \<Rightarrow> selector \<Rightarrow> (py_error + unit) \<times> 'fs \<times> selector" where
  "copy_files os destination fs s =
     (let files = get_selected_files s
      in case copy_loop os destination files fs of
           (Inl err, fs') \<Rightarrow> (Inl err, fs', s)
         | (Inr _, fs') \<Rightarrow> (case clear_selection s of (r, s') \<Rightarrow> (r, fs', s')))"

fun move_loop :: "'fs os_prims \<Rightarrow> string \<Rightarrow> string list \<Rightarrow> 'fs \<Rightarrow> (py_error + unit) \<times> 'fs" where
  "move_loop os destination [] fs = (Inr (), fs)"
| "move_loop os destination (f # files) fs =
     (if os_path_exists os fs f
      then (case shutil_move os fs f destination of
              (Inl err, fs') \<Rightarrow> (Inl err, fs')
            | (Inr _, fs') \<Rightarrow> move_loop os destination files fs')
      else (Inl (FileNotFoundError (f @ '' does not exist.'')), fs))"

definition move_files ::
  "'fs os_prims \<Rightarrow> string \<Rightarrow> 'fs \<Rightarrow> selector \<Rightarrow> (py_error + unit) \<times> 'fs \<times> selector" where
  "move_files os destination fs s =
     (let files = get_selected_files s
      in case move_loop os destination files fs of
           (Inl err, fs') \<Rightarrow> (Inl err, fs', s)
         | (Inr _, fs') \<Rightarrow> (case clear_selection s of (r, s') \<Rightarrow> (r, fs', s')))"

fun delete_loop :: "'fs os_prims \<Rightarrow> string list \<Rightarrow> 'fs \<Rightarrow> (py_error + unit) \<times> 'fs" where
  "delete_loop os [] fs = (Inr (), fs)"
| "delete_loop os (f # files) fs =
     (if os_path_isfile os fs f
      then (case os_remove os fs f of
              (Inl err, fs') \<Rightarrow> (Inl err, fs')
            | (Inr _, fs') \<Rightarrow> delete_loop os files fs')
      else if os_path_isdir os fs f
      then (case shutil_rmtree os fs f of
              (Inl err, fs') \<Rightarrow> (Inl err, fs')
            | (Inr _, fs') \<Rightarrow> delete_loop os files fs')
      else (Inl (FileNotFoundError (f @ '' does not exist.'')), fs))"

definition delete_files ::
  "'fs os_prims \<Rightarrow> 'fs \<Rightarrow> selector \<Rightarrow> (py_error + unit) \<times> 'fs \<times> selector" where
  "delete_files os fs s =
     (let files = get_selected_files s
      in case delete_loop os files fs of
           (Inl err, fs') \<Rightarrow> (Inl err, fs', s)
         | (Inr _, fs') \<Rightarrow> (case clear_selection s of (r, s') \<Rightarrow> (r, fs', s')))"

section \<open>A concrete filesystem\<close>

text \<open>
  To run the operations on concrete inputs, the primitives are instantiated with a small
  model of a POSIX filesystem: an association list from absolute paths (no trailing
  separator, each path at most once) to nodes, a regular file with its content or a
  directory.  The functions follow the documented behaviour of the Python library calls in
  the cases that the examples below exercise:
  \<^item> \<^verbatim>\<open>os.listdir\<close> raises \<^verbatim>\<open>FileNotFoundError\<close> for a missing path and
    \<^verbatim>\<open>NotADirectoryError\<close> for a regular file;
  \<^item> \<^verbatim>\<open>os.remove\<close> removes a regular file and raises \<^verbatim>\<open>IsADirectoryError\<close> for a
    directory; \<^verbatim>\<open>shutil.rmtree\<close> removes a directory with all that is below it;
  \<^item> \<^verbatim>\<open>shutil.copy2(src, dst)\<close> copies into \<^verbatim>\<open>join(dst, basename(src))\<close> when
    \<^verbatim>\<open>dst\<close> is a directory, and copies by opening \<^verbatim>\<open>src\<close> for reading, which raises
    \<^verbatim>\<open>IsADirectoryError\<close> when \<^verbatim>\<open>src\<close> is a directory: it copies regular files only
    (the recursive copy of the library is \<^verbatim>\<open>shutil.copytree\<close>, which the source does
    not call);
  \<^item> \<^verbatim>\<open>shutil.move(src, dst)\<close> renames to \<^verbatim>\<open>join(dst, basename(src))\<close> when \<^verbatim>\<open>dst\<close>
    is a directory, raising \<^verbatim>\<open>shutil.Error\<close> if that path exists or if a directory
    would move into itself, and moves a directory with all that is below it.
\<close>

datatype node = File string | Dir

type_synonym filesystem = "(string \<times> node) list"

definition fs_exists :: "filesystem \<Rightarrow> string \<Rightarrow> bool" where
  "fs_exists fs p = (map_of fs p \<noteq> None)"

definition fs_isfile :: "filesystem \<Rightarrow> string \<Rightarrow> bool" where
  "fs_isfile fs p = (case map_of fs p of Some (File _) \<Rightarrow> True | _ \<Rightarrow> False)"

definition fs_isdir :: "filesystem \<Rightarrow> string \<Rightarrow> bool" where
  "fs_isdir fs p = (case map_of fs p of Some Dir \<Rightarrow> True | _ \<Rightarrow> False)"

definition fs_listdir :: "filesystem \<Rightarrow> string \<Rightarrow> py_error + string list" where
  "fs_listdir fs p =
     (case map_of fs p of
        None \<Rightarrow> Inl (FileNotFoundError p)
      | Some (File _) \<Rightarrow> Inl (NotADirectoryError p)
      | Some Dir \<Rightarrow>
          Inr (map (\<lambda>(q, _). os_path_basename q)
                 (filter (\<lambda>(q, _). q \<noteq> p \<and> os_path_dirname q = p) fs)))"

definition below :: "string \<Rightarrow> string \<Rightarrow> bool" where
  "below p q = (q = p \<or> prefix (p @ [sep]) q)"

definition fs_remove :: "filesystem \<Rightarrow> string \<Rightarrow> (py_error + unit) \<times> filesystem" where
  "fs_remove fs p =
     (case map_of fs p of
        None \<Rightarrow> (Inl (FileNotFoundError p), fs)
      | Some Dir \<Rightarrow> (Inl (IsADirectoryError p), fs)
      | Some (File _) \<Rightarrow> (Inr (), filter (\<lambda>(q, _). q \<noteq> p) fs))"

definition fs_rmtree :: "filesystem \<Rightarrow> string \<Rightarrow> (py_error + unit) \<times> filesystem" where
  "fs_rmtree fs p =
     (case map_of fs p of
        None \<Rightarrow> (Inl (FileNotFoundError p), fs)
      | Some (File _) \<Rightarrow> (Inl (NotADirectoryError p), fs)
      | Some Dir \<Rightarrow> (Inr (), filter (\<lambda>(q, _). \<not> below p q) fs))"

definition fs_copy2 :: "filesystem \<Rightarrow> string \<Rightarrow> string \<Rightarrow> (py_error + unit) \<times> filesystem" where
  "fs_copy2 fs src dst =
     (let dst' = (if fs_isdir fs dst then os_path_join dst (os_path_basename src) else dst)
      in case map_of fs src of
           None \<Rightarrow> (Inl (FileNotFoundError src), fs)
         | Some Dir \<Rightarrow> (Inl (IsADirectoryError src), fs)
         | Some (File c) \<Rightarrow>
             if dst' = src then (Inl (ShutilError src), fs)
             else if fs_isdir fs dst' then (Inl (IsADirectoryError dst'), fs)
             else if \<not> fs_isdir fs (os_path_dirname dst') then (Inl (FileNotFoundError dst'), fs)
             else (Inr (), filter (\<lambda>(q, _). q \<noteq> dst') fs @ [(dst', File c)]))"

definition fs_move :: "filesystem \<Rightarrow> string \<Rightarrow> string \<Rightarrow> (py_error + unit) \<times> filesystem" where
  "fs_move fs src dst =
     (let real_dst = (if fs_isdir fs dst then os_path_join dst (os_path_basename src) else dst)
      in if fs_isdir fs dst \<and> dst = src then (Inr (), fs)
         else if fs_isdir fs dst \<and> fs_exists fs real_dst then (Inl (ShutilError real_dst), fs)
         else if \<not> fs_exists fs src then (Inl (FileNotFoundError src), fs)
         else if real_dst = src then (Inr (), fs)
         else if fs_isdir fs src \<and> below src real_dst then (Inl (ShutilError src), fs)
         else if fs_isdir fs src \<and> fs_isfile fs real_dst then (Inl (OSError real_dst), fs)
         else if \<not> fs_isdir fs (os_path_dirname real_dst)
         then (Inl (FileNotFoundError real_dst), fs)
         else (Inr (),
               map (\<lambda>(q, n). (if below src q then real_dst @ drop (length src) q else q, n))
                 (filter (\<lambda>(q, _). q \<noteq> real_dst) fs)))"

definition posix :: "filesystem os_prims" where
  "posix = \<lparr> os_listdir = fs_listdir, os_path_isdir = fs_isdir, os_path_isfile = fs_isfile,
             os_path_exists = fs_exists, os_remove = fs_remove, shutil_rmtree = fs_rmtree,
             shutil_copy2 = fs_copy2, shutil_move = fs_move \<rparr>"

text \<open>
  The directory of the scenario: \<^verbatim>\<open>/home/u\<close> holds the file \<^verbatim>\<open>a.txt\<close> and the directory
  \<^verbatim>\<open>docs\<close>, which holds \<^verbatim>\<open>n.txt\<close>; \<^verbatim>\<open>/tmp/d\<close> is an empty directory.  The
  explorer stands in \<^verbatim>\<open>/home/u\<close>, and \<open>file_selector files\<close> is a selector whose selection
  is \<open>files\<close>.
\<close>

definition home_fs :: filesystem where
  "home_fs =
     [(''/'', Dir), (''/home'', Dir), (''/home/u'', Dir),
      (''/home/u/a.txt'', File ''alpha''), (''/home/u/docs'', Dir),
      (''/home/u/docs/n.txt'', File ''notes''),
      (''/tmp'', Dir), (''/tmp/d'', Dir)]"

definition home_explorer :: explorer where
  "home_explorer = \<lparr> current_path = ''/home/u'' \<rparr>"

definition file_selector :: "string list \<Rightarrow> selector" where
  "file_selector files = \<lparr> selected_files = files, current_directory_contents = [] \<rparr>"

text \<open>
  Vocabulary for the statements: an index is valid for a listing when it lies in
  \<open>[0, len)\<close>; a valid index resolves to the entry at that position, joined to the
  directory.
\<close>

definition valid_index :: "string list \<Rightarrow> int \<Rightarrow> bool" where
  "valid_index contents i = (0 \<le> i \<and> i < int (length contents))"

definition resolve :: "string \<Rightarrow> string list \<Rightarrow> int \<Rightarrow> string" where
  "resolve current_dir contents i = os_path_join current_dir (contents ! nat i)"

section \<open>What the methods compute\<close>

subsection \<open>Selection\<close>

lemma select_loop_run:
  "select_loop d indices s =
     (if \<forall>i\<in>set indices. valid_index (current_directory_contents s) i
      then Inr () else Inl (ValueError ''File index out of range.''),
      s\<lparr>selected_files := selected_files s @
           map (resolve d (current_directory_contents s))
             (takeWhile (valid_index (current_directory_contents s)) indices)\<rparr>)"
proof (induction indices arbitrary: s)
  case Nil
  show ?case by simp
next
  case (Cons i indices)
  show ?case
  proof (cases "valid_index (current_directory_contents s) i")
    case True
    then show ?thesis
      using Cons.IH [of "s\<lparr>selected_files := selected_files s @ [resolve d (current_directory_contents s) i]\<rparr>"]
      by (simp add: valid_index_def resolve_def)
  next
    case False
    then show ?thesis by (auto simp add: valid_index_def)
  qed
qed

lemma select_files_by_indices_run:
  assumes "os_listdir os fs (current_path e) = Inr contents"
  shows "select_files_by_indices os fs e s indices =
     (if \<forall>i\<in>set indices. valid_index contents i
      then Inr (map (resolve (current_path e) contents) indices)
      else Inl (ValueError ''File index out of range.''),
      s\<lparr>selected_files :=
           map (resolve (current_path e) contents) (takeWhile (valid_index contents) indices),
         current_directory_contents := contents\<rparr>)"
proof (cases "\<forall>i\<in>set indices. valid_index contents i")
  case True
  then have whole: "takeWhile (valid_index contents) indices = indices"
    by simp
  from True assms show ?thesis
    by (simp add: select_files_by_indices_def load_directory_contents_def
        list_directory_contents_def get_current_directory_def select_loop_run Let_def whole)
next
  case False
  with assms show ?thesis
    by (auto simp add: select_files_by_indices_def load_directory_contents_def
        list_directory_contents_def get_current_directory_def select_loop_run Let_def)
qed

subsection \<open>Bulk operations\<close>

lemma copy_files_outcome:
  "copy_files os destination fs s =
     (case copy_loop os destination (selected_files s) fs of
        (Inl err, fs') \<Rightarrow> (Inl err, fs', s)
      | (Inr u, fs') \<Rightarrow> (Inr (), fs', s\<lparr>selected_files := []\<rparr>))"
  by (simp add: copy_files_def get_selected_files_def clear_selection_def
      split: prod.splits sum.splits)

lemma move_files_outcome:
  "move_files os destination fs s =
     (case move_loop os destination (selected_files s) fs of
        (Inl err, fs') \<Rightarrow> (Inl err, fs', s)
      | (Inr u, fs') \<Rightarrow> (Inr (), fs', s\<lparr>selected_files := []\<rparr>))"
  by (simp add: move_files_def get_selected_files_def clear_selection_def
      split: prod.splits sum.splits)

lemma delete_files_outcome:
  "delete_files os fs s =
     (case delete_loop os (selected_files s) fs of
        (Inl err, fs') \<Rightarrow> (Inl err, fs', s)
      | (Inr u, fs') \<Rightarrow> (Inr (), fs', s\<lparr>selected_files := []\<rparr>))"
  by (simp add: delete_files_def get_selected_files_def clear_selection_def
      split: prod.splits sum.splits)

subsection \<open>Navigation and paths\<close>

lemma navigate_to_index_run:
  assumes "os_listdir os fs (current_path e) = Inr contents"
  shows "navigate_to_index os fs e index =
     (if \<not> valid_index contents index then (Inl (ValueError ''Invalid index.''), e)
      else if os_path_isdir os fs (resolve (current_path e) contents index)
      then (Inr (), e\<lparr>current_path := resolve (current_path e) contents index\<rparr>)
      else (Inl (NotADirectoryError (contents ! nat index @ '' is not a directory.'')), e))"
  using assms
  by (auto simp add: navigate_to_index_def list_directory_contents_def valid_index_def
      resolve_def Let_def)

lemma rev_dropWhile_rev_prefix: "prefix (rev (dropWhile P (rev xs))) xs"
proof -
  have "rev (takeWhile P (rev xs) @ dropWhile P (rev xs)) = xs"
    by simp
  then have "rev (dropWhile P (rev xs)) @ rev (takeWhile P (rev xs)) = xs"
    by (simp only: rev_append)
  then show ?thesis
    by (metis prefixI)
qed

lemma os_path_dirname_prefix: "prefix (os_path_dirname p) p"
proof -
  let ?head = "rev (dropWhile (\<lambda>c. c \<noteq> sep) (rev p))"
  have "prefix (rstrip_sep ?head) ?head"
    unfolding rstrip_sep_def by (rule rev_dropWhile_rev_prefix)
  moreover have "prefix ?head p"
    by (rule rev_dropWhile_rev_prefix)
  ultimately show ?thesis
    by (auto simp add: os_path_dirname_def Let_def intro: prefix_order.trans)
qed

lemma os_path_dirname_root:
  assumes "set p \<subseteq> {sep}"
  shows "os_path_dirname p = p"
proof -
  from assms have all: "\<forall>c\<in>set p. c = sep" by auto
  then have "dropWhile (\<lambda>c. c \<noteq> sep) (rev p) = rev p"
    by (cases "rev p") auto
  moreover from all have "replicate (length p) sep = p"
    by (rule replicate_length_same)
  ultimately show ?thesis
    by (simp add: os_path_dirname_def)
qed

lemma os_path_dirname_no_sep:
  assumes "sep \<notin> set p"
  shows "os_path_dirname p = []"
proof -
  from assms have "dropWhile (\<lambda>c. c \<noteq> sep) (rev p) = []"
    by auto
  then show ?thesis
    by (simp add: os_path_dirname_def)
qed

lemma os_path_dirname_join:
  assumes "d \<noteq> []" and "last d \<noteq> sep" and "name \<noteq> []" and "sep \<notin> set name"
  shows "os_path_dirname (os_path_join d name) = d"
proof -
  from assms(3,4) have "hd name \<noteq> sep"
    by (cases name) auto
  with assms(1,2) have joined: "os_path_join d name = d @ [sep] @ name"
    by (simp add: os_path_join_def)
  from assms(4) have "dropWhile (\<lambda>c. c \<noteq> sep) (rev name @ sep # rev d) = sep # rev d"
    by (subst dropWhile_append2) auto
  then have head: "rev (dropWhile (\<lambda>c. c \<noteq> sep) (rev (d @ [sep] @ name))) = d @ [sep]"
    by simp
  have not_root: "d @ [sep] \<noteq> replicate (length (d @ [sep])) sep"
  proof
    assume "d @ [sep] = replicate (length (d @ [sep])) sep"
    then have "set (d @ [sep]) = set (replicate (length (d @ [sep])) sep)"
      by (rule arg_cong)
    moreover from assms(1) have "last d \<in> set (d @ [sep])"
      by simp
    ultimately have "last d \<in> set (replicate (length (d @ [sep])) sep)"
      by (rule subst)
    with assms(2) show False
      by simp
  qed
  from assms(1,2) have "dropWhile (\<lambda>c. c = sep) (rev d) = rev d"
    by (cases "rev d") (auto simp add: last_rev [symmetric] simp del: last_rev)
  then have "rstrip_sep (d @ [sep]) = d"
    by (simp add: rstrip_sep_def)
  with head not_root show ?thesis
    by (simp add: os_path_dirname_def joined Let_def del: replicate_Suc)
qed

section \<open>Navigation\<close>

text \<open>
  C4.  When the listing of the current directory succeeds and the index \<open>i\<close> is valid for
  it: if the entry at \<open>i\<close>, joined to the current path, is a directory, then
  \<^verbatim>\<open>navigate_to_index(i)\<close> returns normally and the current path becomes exactly that
  joined path; if it is not a directory, the call raises \<^verbatim>\<open>NotADirectoryError\<close> and the
  explorer is unchanged.
\<close>

theorem navigate_to_index_valid:
  assumes "os_listdir os fs (current_path e) = Inr contents"
    and "0 \<le> i" and "i < int (length contents)"
  shows "(os_path_isdir os fs (os_path_join (current_path e) (contents ! nat i)) \<longrightarrow>
            navigate_to_index os fs e i =
              (Inr (), e\<lparr>current_path := os_path_join (current_path e) (contents ! nat i)\<rparr>)) \<and>
         (\<not> os_path_isdir os fs (os_path_join (current_path e) (contents ! nat i)) \<longrightarrow>
            navigate_to_index os fs e i =
              (Inl (NotADirectoryError (contents ! nat i @ '' is not a directory.'')), e))"
  using assms by (simp add: navigate_to_index_run valid_index_def resolve_def)

theorem navigate_to_index_valid_witness:
  "os_listdir posix home_fs (current_path home_explorer) = Inr [''a.txt'', ''docs''] \<and>
   (0::int) \<le> 1 \<and> (1::int) < int (length [''a.txt'', ''docs'']) \<and>
   os_path_isdir posix home_fs (os_path_join ''/home/u'' ''docs'') \<and>
   navigate_to_index posix home_fs home_explorer 1 = (Inr (), \<lparr>current_path = ''/home/u/docs''\<rparr>) \<and>
   \<not> os_path_isdir posix home_fs (os_path_join ''/home/u'' ''a.txt'') \<and>
   navigate_to_index posix home_fs home_explorer 0 =
     (Inl (NotADirectoryError ''a.txt is not a directory.''), \<lparr>current_path = ''/home/u''\<rparr>)"
proof -
  have listing: "os_listdir posix home_fs (current_path home_explorer) = Inr [''a.txt'', ''docs'']"
    by code_simp
  have path: "current_path home_explorer = ''/home/u''"
    by (simp add: home_explorer_def)
  have range: "(0::int) \<le> 1" "(1::int) < int (length [''a.txt'', ''docs''])"
    by simp_all
  have docs: "os_path_isdir posix home_fs (os_path_join ''/home/u'' ''docs'')"
    by code_simp
  have a_txt: "\<not> os_path_isdir posix home_fs (os_path_join ''/home/u'' ''a.txt'')"
    by code_simp
  have "navigate_to_index posix home_fs home_explorer 1 =
          (Inr (), home_explorer\<lparr>current_path := os_path_join ''/home/u'' ''docs''\<rparr>)"
    using navigate_to_index_valid [OF listing range] docs by (simp add: path)
  moreover have "home_explorer\<lparr>current_path := os_path_join ''/home/u'' ''docs''\<rparr>
      = \<lparr>current_path = ''/home/u/docs''\<rparr>"
    by code_simp
  ultimately have into: "navigate_to_index posix home_fs home_explorer 1 =
      (Inr (), \<lparr>current_path = ''/home/u/docs''\<rparr>)"
    by simp
  have "navigate_to_index posix home_fs home_explorer 0 =
          (Inl (NotADirectoryError (''a.txt'' @ '' is not a directory.'')), home_explorer)"
    using navigate_to_index_valid [OF listing, of 0] a_txt by (simp add: path)
  then have refused: "navigate_to_index posix home_fs home_explorer 0 =
     (Inl (NotADirectoryError ''a.txt is not a directory.''), \<lparr>current_path = ''/home/u''\<rparr>)"
    by (simp add: home_explorer_def)
  from listing range docs into a_txt refused show ?thesis
    by (intro conjI)
qed

text \<open>
  C5.  When the listing of the current directory succeeds, \<^verbatim>\<open>navigate_to_index(i)\<close>
  raises the \<^verbatim>\<open>ValueError\<close> of an invalid index exactly when \<open>i\<close> is negative or at least
  the length of that listing; for an index inside the range it raises no \<^verbatim>\<open>ValueError\<close>
  at all.
\<close>

theorem navigate_to_index_out_of_range_iff:
  assumes "os_listdir os fs (current_path e) = Inr contents"
  shows "(fst (navigate_to_index os fs e i) = Inl (ValueError ''Invalid index.'')
            \<longleftrightarrow> (i < 0 \<or> int (length contents) \<le> i)) \<and>
         ((\<exists>msg. fst (navigate_to_index os fs e i) = Inl (ValueError msg))
            \<longleftrightarrow> (i < 0 \<or> int (length contents) \<le> i))"
  using assms by (auto simp add: navigate_to_index_run valid_index_def)

theorem navigate_to_index_out_of_range_iff_witness:
  "os_listdir posix home_fs (current_path home_explorer) = Inr [''a.txt'', ''docs''] \<and>
   fst (navigate_to_index posix home_fs home_explorer 2) = Inl (ValueError ''Invalid index.'') \<and>
   fst (navigate_to_index posix home_fs home_explorer (- 1)) = Inl (ValueError ''Invalid index.'') \<and>
   fst (navigate_to_index posix home_fs home_explorer 1) \<noteq> Inl (ValueError ''Invalid index.'')"
proof -
  have listing: "os_listdir posix home_fs (current_path home_explorer) = Inr [''a.txt'', ''docs'']"
    by code_simp
  have above: "fst (navigate_to_index posix home_fs home_explorer 2) = Inl (ValueError ''Invalid index.'')"
    using navigate_to_index_out_of_range_iff [OF listing, of 2] by simp
  have under: "fst (navigate_to_index posix home_fs home_explorer (- 1)) = Inl (ValueError ''Invalid index.'')"
    using navigate_to_index_out_of_range_iff [OF listing, of "- 1"] by simp
  have inside: "fst (navigate_to_index posix home_fs home_explorer 1) \<noteq> Inl (ValueError ''Invalid index.'')"
    using navigate_to_index_out_of_range_iff [OF listing, of 1] by simp
  from listing above under inside show ?thesis
    by (intro conjI)
qed

text \<open>
  C10.  Whenever \<^verbatim>\<open>navigate_to_index\<close> raises, whatever the exception (the listing
  failed, the index is out of range, or the entry is not a directory), the explorer, and
  so its current path, is as it was before the call.
\<close>

theorem navigate_to_index_failure_keeps_path:
  assumes "fst (navigate_to_index os fs e i) = Inl err"
  shows "snd (navigate_to_index os fs e i) = e"
  using assms
  by (auto simp add: navigate_to_index_def Let_def split: sum.splits if_splits)

theorem navigate_to_index_failure_keeps_path_witness:
  "fst (navigate_to_index posix home_fs home_explorer 7) = Inl (ValueError ''Invalid index.'') \<and>
   snd (navigate_to_index posix home_fs home_explorer 7) = home_explorer \<and>
   fst (navigate_to_index posix home_fs home_explorer 0) =
     Inl (NotADirectoryError ''a.txt is not a directory.'') \<and>
   snd (navigate_to_index posix home_fs home_explorer 0) = home_explorer \<and>
   fst (navigate_to_index posix home_fs \<lparr>current_path = ''/nowhere''\<rparr> 0) =
     Inl (FileNotFoundError ''/nowhere'') \<and>
   snd (navigate_to_index posix home_fs \<lparr>current_path = ''/nowhere''\<rparr> 0) =
     \<lparr>current_path = ''/nowhere''\<rparr>"
proof -
  have range: "fst (navigate_to_index posix home_fs home_explorer 7) = Inl (ValueError ''Invalid index.'')"
    by code_simp
  have entry: "fst (navigate_to_index posix home_fs home_explorer 0) =
      Inl (NotADirectoryError ''a.txt is not a directory.'')"
    by code_simp
  have listing: "fst (navigate_to_index posix home_fs \<lparr>current_path = ''/nowhere''\<rparr> 0) =
      Inl (FileNotFoundError ''/nowhere'')"
    by code_simp
  from range entry listing
    navigate_to_index_failure_keeps_path [OF range]
    navigate_to_index_failure_keeps_path [OF entry]
    navigate_to_index_failure_keeps_path [OF listing]
  show ?thesis
    by (intro conjI)
qed

text \<open>
  C9.  \<^verbatim>\<open>go_to_parent_directory\<close> never raises and sets the current path to
  \<^verbatim>\<open>os.path.dirname\<close> of the current path, a function of the path string alone (the
  filesystem is no argument of it), whose result is a prefix of the path.  For a path
  \<^verbatim>\<open>join(d, name)\<close> of an entry \<open>name\<close> in a directory \<open>d\<close> that does not end in a separator,
  the result is \<open>d\<close>.  At a root, that is for a path made of separators only such as
  \<^verbatim>\<open>/\<close>, the explorer is unchanged; for a path without any separator the current path
  becomes the empty string.  No case fails.
\<close>

theorem go_to_parent_directory_dirname:
  "fst (go_to_parent_directory e) = Inr () \<and>
   current_path (snd (go_to_parent_directory e)) = os_path_dirname (current_path e) \<and>
   prefix (current_path (snd (go_to_parent_directory e))) (current_path e) \<and>
   (current_path e = os_path_join d name \<and> d \<noteq> [] \<and> last d \<noteq> sep \<and> name \<noteq> [] \<and>
      sep \<notin> set name \<longrightarrow> current_path (snd (go_to_parent_directory e)) = d) \<and>
   (set (current_path e) \<subseteq> {sep} \<longrightarrow> snd (go_to_parent_directory e) = e) \<and>
   (sep \<notin> set (current_path e) \<longrightarrow> current_path (snd (go_to_parent_directory e)) = [])"
  by (simp add: go_to_parent_directory_def Let_def os_path_dirname_prefix
      os_path_dirname_root os_path_dirname_no_sep os_path_dirname_join)

theorem go_to_parent_directory_dirname_witness:
  "current_path \<lparr>current_path = ''/home/u/docs''\<rparr> = os_path_join ''/home/u'' ''docs'' \<and>
   ''/home/u'' \<noteq> [] \<and> last ''/home/u'' \<noteq> sep \<and> ''docs'' \<noteq> [] \<and> sep \<notin> set ''docs'' \<and>
   current_path (snd (go_to_parent_directory \<lparr>current_path = ''/home/u/docs''\<rparr>)) = ''/home/u'' \<and>
   set (current_path \<lparr>current_path = ''/''\<rparr>) \<subseteq> {sep} \<and>
   snd (go_to_parent_directory \<lparr>current_path = ''/''\<rparr>) = \<lparr>current_path = ''/''\<rparr> \<and>
   sep \<notin> set (current_path \<lparr>current_path = ''home''\<rparr>) \<and>
   current_path (snd (go_to_parent_directory \<lparr>current_path = ''home''\<rparr>)) = []"
proof -
  have child: "current_path \<lparr>current_path = ''/home/u/docs''\<rparr> = os_path_join ''/home/u'' ''docs'' \<and>
      ''/home/u'' \<noteq> [] \<and> last ''/home/u'' \<noteq> sep \<and> ''docs'' \<noteq> [] \<and> sep \<notin> set ''docs''"
    by (simp add: os_path_join_def sep_def)
  have root: "set (current_path \<lparr>current_path = ''/''\<rparr>) \<subseteq> {sep}"
    by (simp add: sep_def)
  have bare: "sep \<notin> set (current_path \<lparr>current_path = ''home''\<rparr>)"
    by (simp add: sep_def)
  from child
    go_to_parent_directory_dirname [of "\<lparr>current_path = ''/home/u/docs''\<rparr>" "''/home/u''" "''docs''"]
  have up: "current_path (snd (go_to_parent_directory \<lparr>current_path = ''/home/u/docs''\<rparr>)) = ''/home/u''"
    by blast
  from root go_to_parent_directory_dirname [of "\<lparr>current_path = ''/''\<rparr>"]
  have stay: "snd (go_to_parent_directory \<lparr>current_path = ''/''\<rparr>) = \<lparr>current_path = ''/''\<rparr>"
    by blast
  from bare go_to_parent_directory_dirname [of "\<lparr>current_path = ''home''\<rparr>"]
  have gone: "current_path (snd (go_to_parent_directory \<lparr>current_path = ''home''\<rparr>)) = []"
    by blast
  from child up root stay bare gone show ?thesis
    by (intro conjI) simp_all
qed

section \<open>Selection by indices\<close>

text \<open>
  C3.  When the listing of the current directory succeeds and the index sequence contains
  an index that is out of range for it, \<^verbatim>\<open>select_files_by_indices\<close> raises the
  \<^verbatim>\<open>ValueError\<close> of an index out of range, and the selection it leaves holds exactly the
  paths resolved for the indices before the first invalid one, in their order, whatever
  the selection was before.  In particular the selection is empty when the first index is
  invalid.
\<close>

theorem select_files_by_indices_out_of_range:
  assumes "os_listdir os fs (current_path e) = Inr contents"
    and "\<exists>i\<in>set indices. \<not> valid_index contents i"
  shows "select_files_by_indices os fs e s indices =
           (Inl (ValueError ''File index out of range.''),
            s\<lparr>selected_files :=
                 map (resolve (current_path e) contents)
                   (takeWhile (valid_index contents) indices),
               current_directory_contents := contents\<rparr>) \<and>
         (\<not> valid_index contents (hd indices) \<longrightarrow>
            selected_files (snd (select_files_by_indices os fs e s indices)) = [])"
proof -
  from assms(2) have "indices \<noteq> []" by auto
  then have "\<not> valid_index contents (hd indices) \<Longrightarrow>
      takeWhile (valid_index contents) indices = []"
    by (cases indices) simp_all
  with assms show ?thesis
    by (auto simp add: select_files_by_indices_run)
qed

theorem select_files_by_indices_out_of_range_witness:
  "os_listdir posix home_fs (current_path home_explorer) = Inr [''a.txt'', ''docs''] \<and>
   (\<exists>i\<in>set [1, 5, 0]. \<not> valid_index [''a.txt'', ''docs''] i) \<and>
   select_files_by_indices posix home_fs home_explorer (file_selector [''/old'']) [1, 5, 0] =
     (Inl (ValueError ''File index out of range.''),
      \<lparr>selected_files = [''/home/u/docs''], current_directory_contents = [''a.txt'', ''docs'']\<rparr>) \<and>
   (\<exists>i\<in>set [5]. \<not> valid_index [''a.txt'', ''docs''] i) \<and>
   \<not> valid_index [''a.txt'', ''docs''] (hd [5]) \<and>
   selected_files (snd (select_files_by_indices posix home_fs home_explorer
     (file_selector [''/old'']) [5])) = []"
proof -
  have listing: "os_listdir posix home_fs (current_path home_explorer) = Inr [''a.txt'', ''docs'']"
    by code_simp
  have later: "\<exists>i\<in>set [1, 5, 0]. \<not> valid_index [''a.txt'', ''docs''] i"
    by (simp add: valid_index_def)
  have only: "\<exists>i\<in>set [5]. \<not> valid_index [''a.txt'', ''docs''] i"
    by (simp add: valid_index_def)
  have first: "\<not> valid_index [''a.txt'', ''docs''] (hd [5])"
    by (simp add: valid_index_def)
  have kept: "(file_selector [''/old''])
      \<lparr>selected_files := map (resolve (current_path home_explorer) [''a.txt'', ''docs''])
         (takeWhile (valid_index [''a.txt'', ''docs'']) [1, 5, 0]),
       current_directory_contents := [''a.txt'', ''docs'']\<rparr>
     = \<lparr>selected_files = [''/home/u/docs''], current_directory_contents = [''a.txt'', ''docs'']\<rparr>"
    by code_simp
  from select_files_by_indices_out_of_range [OF listing later, of "file_selector [''/old'']"]
  have partial: "select_files_by_indices posix home_fs home_explorer (file_selector [''/old'']) [1, 5, 0] =
     (Inl (ValueError ''File index out of range.''),
      \<lparr>selected_files = [''/home/u/docs''], current_directory_contents = [''a.txt'', ''docs'']\<rparr>)"
    by (simp only: kept)
  from first select_files_by_indices_out_of_range [OF listing only, of "file_selector [''/old'']"]
  have none: "selected_files (snd (select_files_by_indices posix home_fs home_explorer
     (file_selector [''/old'']) [5])) = []"
    by blast
  from listing later partial only first none show ?thesis
    by (intro conjI)
qed

text \<open>
  C6.  When the listing of the current directory succeeds and every index of the sequence
  is valid for it, a second call of \<^verbatim>\<open>select_files_by_indices\<close> with the same sequence,
  on the state the first call left and the same filesystem and explorer, returns the same
  list and leaves the same selector as the first call; that list is the resolved path of
  each index, in order.
\<close>

theorem select_files_by_indices_idempotent:
  assumes "os_listdir os fs (current_path e) = Inr contents"
    and "\<forall>i\<in>set indices. valid_index contents i"
  shows "select_files_by_indices os fs e (snd (select_files_by_indices os fs e s indices)) indices
           = select_files_by_indices os fs e s indices \<and>
         fst (select_files_by_indices os fs e s indices)
           = Inr (map (resolve (current_path e) contents) indices)"
  using assms by (simp add: select_files_by_indices_run)

theorem select_files_by_indices_idempotent_witness:
  "os_listdir posix home_fs (current_path home_explorer) = Inr [''a.txt'', ''docs''] \<and>
   list_all (valid_index [''a.txt'', ''docs'']) [1, 0, 1] \<and>
   select_files_by_indices posix home_fs home_explorer
     (snd (select_files_by_indices posix home_fs home_explorer (file_selector [''/old'']) [1, 0, 1]))
     [1, 0, 1]
     = select_files_by_indices posix home_fs home_explorer (file_selector [''/old'']) [1, 0, 1] \<and>
   fst (select_files_by_indices posix home_fs home_explorer (file_selector [''/old'']) [1, 0, 1])
     = Inr [''/home/u/docs'', ''/home/u/a.txt'', ''/home/u/docs'']"
proof -
  have listing: "os_listdir posix home_fs (current_path home_explorer) = Inr [''a.txt'', ''docs'']"
    by code_simp
  have valid: "\<forall>i\<in>set [1, 0, 1]. valid_index [''a.txt'', ''docs''] i"
    by (simp add: valid_index_def)
  then have valid': "list_all (valid_index [''a.txt'', ''docs'']) [1, 0, 1]"
    by (simp only: list_all_iff)
  have paths: "map (resolve (current_path home_explorer) [''a.txt'', ''docs'']) [1, 0, 1]
      = [''/home/u/docs'', ''/home/u/a.txt'', ''/home/u/docs'']"
    by code_simp
  note twice = select_files_by_indices_idempotent [OF listing valid, of "file_selector [''/old'']"]
  from twice have same: "select_files_by_indices posix home_fs home_explorer
     (snd (select_files_by_indices posix home_fs home_explorer (file_selector [''/old'']) [1, 0, 1]))
     [1, 0, 1]
     = select_files_by_indices posix home_fs home_explorer (file_selector [''/old'']) [1, 0, 1]"
    by (rule conjunct1)
  from twice have result: "fst (select_files_by_indices posix home_fs home_explorer
      (file_selector [''/old'']) [1, 0, 1])
     = Inr [''/home/u/docs'', ''/home/u/a.txt'', ''/home/u/docs'']"
    by (simp only: paths)
  from listing valid' same result show ?thesis
    by (intro conjI)
qed

text \<open>
  C8.  When the listing of the current directory succeeds, \<^verbatim>\<open>select_files_by_indices\<close>
  with the empty index sequence returns normally, with the empty list, and leaves the
  selection empty, whatever the selection was before.
\<close>

theorem select_files_by_indices_empty:
  assumes "os_listdir os fs (current_path e) = Inr contents"
  shows "select_files_by_indices os fs e s [] =
           (Inr [], s\<lparr>selected_files := [], current_directory_contents := contents\<rparr>)"
  using assms by (simp add: select_files_by_indices_run)

theorem select_files_by_indices_empty_witness:
  "os_listdir posix home_fs (current_path home_explorer) = Inr [''a.txt'', ''docs''] \<and>
   select_files_by_indices posix home_fs home_explorer (file_selector [''/old'']) [] =
     (Inr [], \<lparr>selected_files = [], current_directory_contents = [''a.txt'', ''docs'']\<rparr>)"
proof -
  have listing: "os_listdir posix home_fs (current_path home_explorer) = Inr [''a.txt'', ''docs'']"
    by code_simp
  from select_files_by_indices_empty [OF listing, of "file_selector [''/old'']"]
  have "select_files_by_indices posix home_fs home_explorer (file_selector [''/old'']) [] =
     (Inr [], \<lparr>selected_files = [], current_directory_contents = [''a.txt'', ''docs'']\<rparr>)"
    by (simp add: file_selector_def)
  with listing show ?thesis
    by (intro conjI)
qed

section \<open>Bulk operations and the selection\<close>

text \<open>
  C7.  A call of \<^verbatim>\<open>copy_files\<close>, \<^verbatim>\<open>move_files\<close> or \<^verbatim>\<open>delete_files\<close> that returns
  normally leaves the selection empty, whatever the filesystem calls did; and
  \<^verbatim>\<open>clear_selection\<close> returns normally and leaves the selection empty from any state.
\<close>

theorem successful_operation_empties_selection:
  "(fst (copy_files os destination fs s) = Inr () \<longrightarrow>
      selected_files (snd (snd (copy_files os destination fs s))) = []) \<and>
   (fst (move_files os destination fs s) = Inr () \<longrightarrow>
      selected_files (snd (snd (move_files os destination fs s))) = []) \<and>
   (fst (delete_files os fs s) = Inr () \<longrightarrow>
      selected_files (snd (snd (delete_files os fs s))) = []) \<and>
   fst (clear_selection s) = Inr () \<and> selected_files (snd (clear_selection s)) = []"
  by (simp add: copy_files_outcome move_files_outcome delete_files_outcome clear_selection_def
      split: prod.splits sum.splits)

theorem successful_operation_empties_selection_witness:
  "fst (copy_files posix ''/tmp/d'' home_fs (file_selector [''/home/u/a.txt''])) = Inr () \<and>
   selected_files (snd (snd (copy_files posix ''/tmp/d'' home_fs
     (file_selector [''/home/u/a.txt''])))) = [] \<and>
   fst (move_files posix ''/tmp/d'' home_fs
     (file_selector [''/home/u/a.txt'', ''/home/u/docs''])) = Inr () \<and>
   selected_files (snd (snd (move_files posix ''/tmp/d'' home_fs
     (file_selector [''/home/u/a.txt'', ''/home/u/docs''])))) = [] \<and>
   fst (delete_files posix home_fs
     (file_selector [''/home/u/a.txt'', ''/home/u/docs''])) = Inr () \<and>
   selected_files (snd (snd (delete_files posix home_fs
     (file_selector [''/home/u/a.txt'', ''/home/u/docs''])))) = []"
proof -
  have copied: "fst (copy_files posix ''/tmp/d'' home_fs (file_selector [''/home/u/a.txt''])) = Inr ()"
    by code_simp
  have moved: "fst (move_files posix ''/tmp/d'' home_fs
      (file_selector [''/home/u/a.txt'', ''/home/u/docs''])) = Inr ()"
    by code_simp
  have deleted: "fst (delete_files posix home_fs
      (file_selector [''/home/u/a.txt'', ''/home/u/docs''])) = Inr ()"
    by code_simp
  from copied successful_operation_empties_selection
    [of posix "''/tmp/d''" home_fs "file_selector [''/home/u/a.txt'']"]
  have after_copy: "selected_files (snd (snd (copy_files posix ''/tmp/d'' home_fs
      (file_selector [''/home/u/a.txt''])))) = []"
    by blast
  from moved deleted successful_operation_empties_selection
    [of posix "''/tmp/d''" home_fs "file_selector [''/home/u/a.txt'', ''/home/u/docs'']"]
  have after_move: "selected_files (snd (snd (move_files posix ''/tmp/d'' home_fs
      (file_selector [''/home/u/a.txt'', ''/home/u/docs''])))) = []"
    and after_delete: "selected_files (snd (snd (delete_files posix home_fs
      (file_selector [''/home/u/a.txt'', ''/home/u/docs''])))) = []"
    by blast+
  from copied after_copy moved after_move deleted after_delete show ?thesis
    by (intro conjI)
qed

text \<open>
  C1, as the claim states it, fails: when a selected path does not exist, each of the
  three operations raises \<^verbatim>\<open>FileNotFoundError\<close> out of its loop and the selection is what
  it was before the call, not empty.
\<close>

theorem bulk_operation_failure_keeps_selection:
  "fst (copy_files posix ''/tmp/d'' home_fs (file_selector [''/home/u/a.txt'', ''/home/u/zz'']))
     = Inl (FileNotFoundError ''/home/u/zz does not exist.'') \<and>
   selected_files (snd (snd (copy_files posix ''/tmp/d'' home_fs
     (file_selector [''/home/u/a.txt'', ''/home/u/zz'']))))
     = [''/home/u/a.txt'', ''/home/u/zz''] \<and>
   fst (move_files posix ''/tmp/d'' home_fs (file_selector [''/home/u/a.txt'', ''/home/u/zz'']))
     = Inl (FileNotFoundError ''/home/u/zz does not exist.'') \<and>
   selected_files (snd (snd (move_files posix ''/tmp/d'' home_fs
     (file_selector [''/home/u/a.txt'', ''/home/u/zz'']))))
     = [''/home/u/a.txt'', ''/home/u/zz''] \<and>
   fst (delete_files posix home_fs (file_selector [''/home/u/a.txt'', ''/home/u/zz'']))
     = Inl (FileNotFoundError ''/home/u/zz does not exist.'') \<and>
   selected_files (snd (snd (delete_files posix home_fs
     (file_selector [''/home/u/a.txt'', ''/home/u/zz'']))))
     = [''/home/u/a.txt'', ''/home/u/zz'']"
  by code_simp

text \<open>
  C1, amended.  For each of \<^verbatim>\<open>copy_files\<close>, \<^verbatim>\<open>move_files\<close> and \<^verbatim>\<open>delete_files\<close>: when
  the loop over the selection completes and the call returns normally, the selection is
  empty afterwards; when an exception leaves the loop, the selector, and so the selection,
  is exactly as it was before the call.
\<close>

theorem bulk_operation_clears_only_on_success:
  "(fst (copy_files os destination fs s) = Inr () \<longrightarrow>
      selected_files (snd (snd (copy_files os destination fs s))) = []) \<and>
   (fst (copy_files os destination fs s) \<noteq> Inr () \<longrightarrow>
      snd (snd (copy_files os destination fs s)) = s) \<and>
   (fst (move_files os destination fs s) = Inr () \<longrightarrow>
      selected_files (snd (snd (move_files os destination fs s))) = []) \<and>
   (fst (move_files os destination fs s) \<noteq> Inr () \<longrightarrow>
      snd (snd (move_files os destination fs s)) = s) \<and>
   (fst (delete_files os fs s) = Inr () \<longrightarrow>
      selected_files (snd (snd (delete_files os fs s))) = []) \<and>
   (fst (delete_files os fs s) \<noteq> Inr () \<longrightarrow>
      snd (snd (delete_files os fs s)) = s)"
  by (simp add: copy_files_outcome move_files_outcome delete_files_outcome
      split: prod.splits sum.splits)

theorem bulk_operation_clears_only_on_success_witness:
  "fst (copy_files posix ''/tmp/d'' home_fs (file_selector [''/home/u/a.txt''])) = Inr () \<and>
   selected_files (snd (snd (copy_files posix ''/tmp/d'' home_fs
     (file_selector [''/home/u/a.txt''])))) = [] \<and>
   fst (move_files posix ''/tmp/d'' home_fs (file_selector [''/home/u/a.txt''])) = Inr () \<and>
   selected_files (snd (snd (move_files posix ''/tmp/d'' home_fs
     (file_selector [''/home/u/a.txt''])))) = [] \<and>
   fst (delete_files posix home_fs (file_selector [''/home/u/a.txt''])) = Inr () \<and>
   selected_files (snd (snd (delete_files posix home_fs
     (file_selector [''/home/u/a.txt''])))) = [] \<and>
   fst (copy_files posix ''/tmp/d'' home_fs (file_selector [''/home/u/a.txt'', ''/home/u/zz'']))
     \<noteq> Inr () \<and>
   snd (snd (copy_files posix ''/tmp/d'' home_fs
     (file_selector [''/home/u/a.txt'', ''/home/u/zz''])))
     = file_selector [''/home/u/a.txt'', ''/home/u/zz''] \<and>
   fst (move_files posix ''/tmp/d'' home_fs (file_selector [''/home/u/a.txt'', ''/home/u/zz'']))
     \<noteq> Inr () \<and>
   snd (snd (move_files posix ''/tmp/d'' home_fs
     (file_selector [''/home/u/a.txt'', ''/home/u/zz''])))
     = file_selector [''/home/u/a.txt'', ''/home/u/zz''] \<and>
   fst (delete_files posix home_fs (file_selector [''/home/u/a.txt'', ''/home/u/zz'']))
     \<noteq> Inr () \<and>
   snd (snd (delete_files posix home_fs
     (file_selector [''/home/u/a.txt'', ''/home/u/zz''])))
     = file_selector [''/home/u/a.txt'', ''/home/u/zz'']"
proof -
  let ?good = "file_selector [''/home/u/a.txt'']"
  let ?bad = "file_selector [''/home/u/a.txt'', ''/home/u/zz'']"
  have c1: "fst (copy_files posix ''/tmp/d'' home_fs ?good) = Inr ()"
    by code_simp
  have m1: "fst (move_files posix ''/tmp/d'' home_fs ?good) = Inr ()"
    by code_simp
  have d1: "fst (delete_files posix home_fs ?good) = Inr ()"
    by code_simp
  have c2: "fst (copy_files posix ''/tmp/d'' home_fs ?bad) \<noteq> Inr ()"
    by code_simp
  have m2: "fst (move_files posix ''/tmp/d'' home_fs ?bad) \<noteq> Inr ()"
    by code_simp
  have d2: "fst (delete_files posix home_fs ?bad) \<noteq> Inr ()"
    by code_simp
  note good = bulk_operation_clears_only_on_success [of posix "''/tmp/d''" home_fs ?good]
  note bad = bulk_operation_clears_only_on_success [of posix "''/tmp/d''" home_fs ?bad]
  from c1 good have c1': "selected_files (snd (snd (copy_files posix ''/tmp/d'' home_fs ?good))) = []"
    by blast
  from m1 good have m1': "selected_files (snd (snd (move_files posix ''/tmp/d'' home_fs ?good))) = []"
    by blast
  from d1 good have d1': "selected_files (snd (snd (delete_files posix home_fs ?good))) = []"
    by blast
  from c2 bad have c2': "snd (snd (copy_files posix ''/tmp/d'' home_fs ?bad)) = ?bad"
    by blast
  from m2 bad have m2': "snd (snd (move_files posix ''/tmp/d'' home_fs ?bad)) = ?bad"
    by blast
  from d2 bad have d2': "snd (snd (delete_files posix home_fs ?bad)) = ?bad"
    by blast
  from c1 c1' m1 m1' d1 d1' c2 c2' m2 m2' d2 d2' show ?thesis
    by (intro conjI)
qed

text \<open>
  C2.  A selected directory that exists is not copied.  Selecting index 1 in \<^verbatim>\<open>/home/u\<close>
  selects the directory \<^verbatim>\<open>/home/u/docs\<close>; \<^verbatim>\<open>copy_files\<close> passes the existence test and
  calls \<^verbatim>\<open>shutil.copy2\<close> on it, which raises \<^verbatim>\<open>IsADirectoryError\<close>; the filesystem is
  unchanged (nothing appears under the destination) and the selection is kept.  A selected
  regular file, by contrast, is copied into the destination.
\<close>

theorem copy_files_selected_directory_raises:
  "fst (select_files_by_indices posix home_fs home_explorer (file_selector []) [1])
     = Inr [''/home/u/docs''] \<and>
   os_path_exists posix home_fs ''/home/u/docs'' \<and>
   os_path_isdir posix home_fs ''/home/u/docs'' \<and>
   copy_files posix ''/tmp/d'' home_fs (file_selector [''/home/u/docs''])
     = (Inl (IsADirectoryError ''/home/u/docs''), home_fs, file_selector [''/home/u/docs'']) \<and>
   os_listdir posix (fst (snd (copy_files posix ''/tmp/d'' home_fs
     (file_selector [''/home/u/docs''])))) ''/tmp/d'' = Inr [] \<and>
   os_listdir posix (fst (snd (copy_files posix ''/tmp/d'' home_fs
     (file_selector [''/home/u/a.txt''])))) ''/tmp/d'' = Inr [''a.txt'']"
  by code_simp

end
